theory Spec2Isabelle
  imports Main
begin

section \<open>AutoPylot: scanning a project for imports and installing what is missing\<close>

text \<open>
  A shallow embedding of \<^verbatim>\<open>AutoPylot/cli.py\<close>. The functions of \<^verbatim>\<open>cli.py\<close>
  (\<^verbatim>\<open>find_python_files\<close>, \<^verbatim>\<open>collect_all_imports\<close>, \<^verbatim>\<open>is_stdlib_module\<close>,
  \<^verbatim>\<open>install_missing_packages\<close>) are translated line by line. What they read from the
  interpreter and the operating system (\<^verbatim>\<open>sys.builtin_module_names\<close>, \<^verbatim>\<open>sys.path\<close>,
  \<^verbatim>\<open>os.getcwd\<close>, \<^verbatim>\<open>os.walk\<close>, the file system behind \<^verbatim>\<open>os.path.exists\<close>, the content
  of files) is a record of the environment, and so are the package manager and its index. The four functions imported from \<^verbatim>\<open>core.py\<close>, which is not among the
  sources, are fields of the same record or are modelled from the specification, as said
  at each of them.

  Strings are lists of 8-bit characters; names and paths are taken to be ASCII, and paths
  follow the POSIX flavour of \<^verbatim>\<open>os.path\<close>. A Python \<^verbatim>\<open>set\<close> is a list without
  duplicates: Python leaves the iteration order of a set open, so every property below
  that speaks of a set is stated through \<^const>\<open>set\<close>.
\<close>

subsection \<open>Strings and paths of the Python library\<close>

text \<open>\<^verbatim>\<open>s.startswith(p)\<close> and \<^verbatim>\<open>s.endswith(p)\<close>.\<close>

definition startswith :: "string \<Rightarrow> string \<Rightarrow> bool" where
  "startswith s p = (take (length p) s = p)"

definition endswith :: "string \<Rightarrow> string \<Rightarrow> bool" where
  "endswith s p = (length p \<le> length s \<and> drop (length s - length p) s = p)"

text \<open>\<^verbatim>\<open>s.lower()\<close> on ASCII: the letters A to Z move to a to z, every other character stays.\<close>

definition lower_char :: "char \<Rightarrow> char" where
  "lower_char c =
     (case map_of (zip ''ABCDEFGHIJKLMNOPQRSTUVWXYZ'' ''abcdefghijklmnopqrstuvwxyz'') c of
        Some d \<Rightarrow> d
      | None \<Rightarrow> c)"

definition lower :: "string \<Rightarrow> string" where
  "lower s = map lower_char s"

text \<open>\<^verbatim>\<open>s.split('/')\<close>: the pieces between separators, empty pieces kept.\<close>

fun split_sep :: "string \<Rightarrow> string list" where
  "split_sep [] = [[]]"
| "split_sep (c # cs) =
     (if c = CHR ''/'' then [] # split_sep cs
      else (c # hd (split_sep cs)) # tl (split_sep cs))"

text \<open>\<^verbatim>\<open>'/'.join(comps)\<close>.\<close>

fun join_sep :: "string list \<Rightarrow> string" where
  "join_sep [] = []"
| "join_sep [c] = c"
| "join_sep (c # d # cs) = c @ ''/'' @ join_sep (d # cs)"

text \<open>
  \<^verbatim>\<open>os.path.join(a, b)\<close> of \<^verbatim>\<open>posixpath\<close>, for two arguments:
  \<^verbatim>\<open>
  if b.startswith('/'):                  path = b
  elif not path or path.endswith('/'):   path += b
  else:                                  path += '/' + b
  \<close>
\<close>

definition path_join :: "string \<Rightarrow> string \<Rightarrow> string" where
  "path_join a b =
     (if startswith b ''/'' then b
      else if a = [] \<or> endswith a ''/'' then a @ b
      else a @ ''/'' @ b)"

text \<open>
  \<^verbatim>\<open>os.path.normpath\<close> of \<^verbatim>\<open>posixpath\<close>. The loop over the components:
  \<^verbatim>\<open>
  if comp in ('', '.'): continue
  if (comp != '..' or (not initial_slashes and not new_comps) or
          (new_comps and new_comps[-1] == '..')):
      new_comps.append(comp)
  elif new_comps:
      new_comps.pop()
  \<close>
\<close>

definition norm_step :: "nat \<Rightarrow> string \<Rightarrow> string list \<Rightarrow> string list" where
  "norm_step initial_slashes component new_comps =
     (if component = '''' \<or> component = ''.'' then new_comps
      else if component \<noteq> ''..'' \<or> (initial_slashes = 0 \<and> new_comps = [])
                \<or> (new_comps \<noteq> [] \<and> last new_comps = ''..'')
           then new_comps @ [component]
      else if new_comps \<noteq> [] then butlast new_comps
      else new_comps)"

definition normpath :: "string \<Rightarrow> string" where
  "normpath path =
     (if path = [] then ''.''
      else
        let initial_slashes =
              (if startswith path ''/''
               then (if startswith path ''//'' \<and> \<not> startswith path ''///''
                     then 2 else 1)
               else (0::nat));
            comps = fold (norm_step initial_slashes) (split_sep path) [];
            path' = replicate initial_slashes (CHR ''/'') @ join_sep comps
        in if path' = [] then ''.'' else path')"

text \<open>\<^verbatim>\<open>os.path.basename(p)\<close>: what follows the last separator.\<close>

definition basename :: "string \<Rightarrow> string" where
  "basename p = rev (takeWhile (\<lambda>c. c \<noteq> CHR ''/'') (rev p))"

subsection \<open>The environment\<close>

text \<open>
  A source file as the scanner sees it: its import statements when it parses, with the
  dotted module paths as written (\<^verbatim>\<open>import a.b, c\<close> is \<open>Import [''a.b'', ''c'']\<close>,
  \<^verbatim>\<open>from a.b import x\<close> is \<open>ImportFrom ''a.b'' [''x'']\<close>), or no parse at all.
\<close>

datatype stmt = Import "string list" | ImportFrom string "string list" | Other

datatype source = Unparsable | Parsed "stmt list"

text \<open>The exceptions a scan can raise; \<^verbatim>\<open>collect_all_imports\<close> catches every \<^verbatim>\<open>Exception\<close>.\<close>

datatype scan_error = Unreadable | SyntaxError

text \<open>What a path of the file system leads to, when it leads to anything.\<close>

datatype entry_kind = Directory | RegularFile

record env =
  builtin_module_names :: "string list"
  sys_path :: "string list"
  path_kind :: "string \<Rightarrow> entry_kind option"
  getcwd :: string
  walk :: "string \<Rightarrow> (string \<times> string list \<times> string list) list"
  read_source :: "string \<Rightarrow> source option"
  is_module_available :: "string \<Rightarrow> bool"
  load_mappings :: "string \<rightharpoonup> string"
  package_manager :: "string \<Rightarrow> bool"
  provides :: "string \<Rightarrow> string list"

text \<open>
  \<^item> \<open>builtin_module_names\<close>, \<open>sys_path\<close>: \<^verbatim>\<open>sys.builtin_module_names\<close>, \<^verbatim>\<open>sys.path\<close>.
  \<^item> \<open>path_kind p\<close>: the file system: the kind of the entry at \<open>p\<close>, \<open>None\<close> when there is
    none.
  \<^item> \<open>getcwd\<close>: \<^verbatim>\<open>os.getcwd()\<close>, an absolute path.
  \<^item> \<open>walk d\<close>: the triples \<^verbatim>\<open>(root, dirs, files)\<close> that \<^verbatim>\<open>os.walk(d)\<close> yields.
  \<^item> \<open>read_source p\<close>: the file at \<open>p\<close>, \<open>None\<close> when it cannot be read.
  \<^item> \<open>is_module_available\<close>: \<^verbatim>\<open>core.is_module_available\<close>, the import-resolution probe
    of the specification (4.4): whether the name resolves now; it never raises.
  \<^item> \<open>load_mappings\<close>: the table \<^verbatim>\<open>core.load_mappings()\<close> returns, a \<^verbatim>\<open>dict\<close> from import
    name to package name.
  \<^item> \<open>package_manager p\<close>: whether the package manager installs \<open>p\<close> without failure.
  \<^item> \<open>provides p\<close>: the package index: the top-level modules that package \<open>p\<close> holds.
\<close>

text \<open>\<^verbatim>\<open>os.path.exists(p)\<close>: true for an entry of any kind.\<close>

definition path_exists :: "env \<Rightarrow> string \<Rightarrow> bool" where
  "path_exists e p = (path_kind e p \<noteq> None)"

text \<open>\<^verbatim>\<open>os.path.abspath(path)\<close>: \<^verbatim>\<open>normpath(path if isabs(path) else join(getcwd(), path))\<close>.\<close>

definition abspath :: "env \<Rightarrow> string \<Rightarrow> string" where
  "abspath e path =
     normpath (if startswith path ''/'' then path else path_join (getcwd e) path)"

subsection \<open>The import scanner and the installer\<close>

text \<open>
  Modelled from the spec: \<^verbatim>\<open>scan_imports\<close> of \<^verbatim>\<open>core.py\<close>, which is not among the
  sources. Specification 4.2: the scanner takes one file path and gives the set of import
  names of that file; it recognises the plain-import and the from-import form and keeps
  only the top-level segment of a dotted path; a file that cannot be read or parsed makes
  the scan fail.
\<close>

definition top_level :: "string \<Rightarrow> string" where
  "top_level m = takeWhile (\<lambda>c. c \<noteq> CHR ''.'') m"

fun stmt_imports :: "stmt \<Rightarrow> string list" where
  "stmt_imports (Import ms) = map top_level ms"
| "stmt_imports (ImportFrom m ns) = [top_level m]"
| "stmt_imports Other = []"

definition scan_imports :: "env \<Rightarrow> string \<Rightarrow> scan_error + string list" where
  "scan_imports e file_path =
     (case read_source e file_path of
        None \<Rightarrow> Inl Unreadable
      | Some Unparsable \<Rightarrow> Inl SyntaxError
      | Some (Parsed stmts) \<Rightarrow> Inr (remdups (concat (map stmt_imports stmts))))"

text \<open>
  What a run prints and does, in order. \<open>Install p ok\<close> is one call
  \<^verbatim>\<open>install_package(p)\<close> with its outcome. The messages of \<^verbatim>\<open>cli.py\<close>:
  \<^item> \<open>Scanning n\<close>: \<^verbatim>\<open>Scanning {n} Python files for imports...\<close>
  \<^item> \<open>ErrorScanning f e\<close>: \<^verbatim>\<open>Error scanning {f}: {e}\<close>
  \<^item> \<open>NoImports\<close>: \<^verbatim>\<open>No imports found in the project.\<close>
  \<^item> \<open>FoundImports n\<close>: \<^verbatim>\<open>Found {n} unique imports.\<close>
  \<^item> \<open>AllInstalled\<close>: \<^verbatim>\<open>All packages are already installed!\<close>
  \<^item> \<open>FoundMissing n\<close>: \<^verbatim>\<open>Found {n} missing packages to install.\<close>
  \<^item> \<open>InstallationComplete\<close>: \<^verbatim>\<open>Package installation complete!\<close>
\<close>

datatype message =
    Scanning nat
  | ErrorScanning string scan_error
  | NoImports
  | FoundImports nat
  | AllInstalled
  | FoundMissing nat
  | InstallationComplete

datatype event = Print message | Install string bool

text \<open>
  Modelled from the spec: \<^verbatim>\<open>install_package\<close> of \<^verbatim>\<open>core.py\<close>, which is not among the
  sources. Specification 4.6: it invokes the package manager on the named package; a
  failure is caught and reported for that package, so the call always returns.
\<close>

definition install_package :: "env \<Rightarrow> string \<Rightarrow> event list" where
  "install_package e package_name = [Install package_name (package_manager e package_name)]"

text \<open>
  Modelled from the spec: what a call of \<^verbatim>\<open>install_package\<close> (\<^verbatim>\<open>core.py\<close>, not among the
  sources) leaves behind. Specification 4.6 and 4.4: the package manager installs the named
  package, and a name is available when it resolves to an importable module. So an
  installation that succeeds makes the modules of that package resolvable and changes
  nothing else; one that fails changes nothing. Which modules a package holds is a matter
  of the package index, on which the specification gives no guarantee (section 1,
  non-goals).
\<close>

definition installed_env :: "env \<Rightarrow> string \<Rightarrow> env" where
  "installed_env e package_name =
     (if package_manager e package_name
      then e \<lparr> is_module_available :=
                 (\<lambda>m. is_module_available e m \<or> m \<in> set (provides e package_name)) \<rparr>
      else e)"

subsection \<open>\<^verbatim>\<open>cli.py\<close>\<close>

text \<open>
  \<^verbatim>\<open>
  def find_python_files(directory):
      python_files = []
      for root, _, files in os.walk(directory):
          for file in files:
              if file.endswith('.py'):
                  python_files.append(os.path.join(root, file))
      return python_files
  \<close>
\<close>

definition find_python_files :: "env \<Rightarrow> string \<Rightarrow> string list" where
  "find_python_files e directory =
     concat (map (\<lambda>(root, dirs, files).
                     map (path_join root) (filter (\<lambda>file. endswith file ''.py'') files))
                 (walk e directory))"

text \<open>\<^verbatim>\<open>all_imports.update(imports)\<close> on a set kept as a list without duplicates.\<close>

definition set_update :: "string list \<Rightarrow> string list \<Rightarrow> string list" where
  "set_update all_imports imports =
     fold (\<lambda>x acc. if x \<in> set acc then acc else acc @ [x]) imports all_imports"

text \<open>
  \<^verbatim>\<open>
  for file_path in python_files:
      try:
          imports = scan_imports(file_path)
          all_imports.update(imports)
      except Exception as e:
          print(f"[AutoPylot] Error scanning {file_path}: {str(e)}")
  return all_imports
  \<close>
  The model returns the set together with what was printed.
\<close>

fun collect_loop ::
  "env \<Rightarrow> string list \<Rightarrow> string list \<Rightarrow> event list \<Rightarrow> string list \<times> event list" where
  "collect_loop e [] all_imports out = (all_imports, out)"
| "collect_loop e (file_path # rest) all_imports out =
     (case scan_imports e file_path of
        Inr imports \<Rightarrow> collect_loop e rest (set_update all_imports imports) out
      | Inl err \<Rightarrow> collect_loop e rest all_imports (out @ [Print (ErrorScanning file_path err)]))"

definition collect_all_imports :: "env \<Rightarrow> string \<Rightarrow> string list \<times> event list" where
  "collect_all_imports e directory =
     (let python_files = find_python_files e directory
      in collect_loop e python_files [] [Print (Scanning (length python_files))])"

text \<open>The literal list of \<^verbatim>\<open>is_stdlib_module\<close>.\<close>

definition stdlib_modules :: "string list" where
  "stdlib_modules =
    [''os'', ''sys'', ''re'', ''math'', ''random'', ''datetime'', ''time'', ''json'', ''pickle'',
     ''collections'', ''functools'', ''itertools'', ''typing'', ''pathlib'', ''io'', ''argparse'',
     ''logging'', ''threading'', ''multiprocessing'', ''subprocess'', ''tempfile'', ''shutil'',
     ''glob'', ''fnmatch'', ''socket'', ''email'', ''mimetypes'', ''base64'', ''hashlib'', ''hmac'',
     ''uuid'', ''unittest'', ''ast'', ''inspect'', ''importlib'', ''signal'', ''asyncio'', ''csv'',
     ''xml'', ''html'', ''urllib'', ''http'', ''ftplib'', ''ssl'', ''zlib'', ''zipfile'', ''tarfile'',
     ''platform'', ''traceback'', ''gc'', ''operator'', ''contextlib'', ''copy'', ''struct'',
     ''configparser'', ''warnings'', ''statistics'', ''decimal'', ''fractions'', ''enum'', ''array'',
     ''bisect'', ''heapq'', ''queue'', ''weakref'', ''abc'', ''calendar'', ''tkinter'', ''turtle'']"

text \<open>
  The loop over \<^verbatim>\<open>sys.path\<close>:
  \<^verbatim>\<open>
  for path in sys.path:
      if path.endswith('site-packages') or path.endswith('dist-packages'):
          continue
      if os.path.exists(os.path.join(path, module_name)) or
         os.path.exists(os.path.join(path, module_name + '.py')):
          return True
  \<close>
  \<open>True\<close> when the loop returns, \<open>False\<close> when it runs to its end.
\<close>

fun search_paths :: "env \<Rightarrow> string \<Rightarrow> string list \<Rightarrow> bool" where
  "search_paths e module_name [] = False"
| "search_paths e module_name (path # rest) =
     (if endswith path ''site-packages'' \<or> endswith path ''dist-packages''
      then search_paths e module_name rest
      else if path_exists e (path_join path module_name)
              \<or> path_exists e (path_join path (module_name @ ''.py''))
           then True
      else search_paths e module_name rest)"

definition is_stdlib_module :: "env \<Rightarrow> string \<Rightarrow> bool" where
  "is_stdlib_module e module_name =
     (if module_name \<in> set (builtin_module_names e) then True
      else if search_paths e module_name (sys_path e) then True
      else module_name \<in> set stdlib_modules)"

text \<open>
  \<^verbatim>\<open>
  project_name = os.path.basename(os.path.abspath(directory))
  internal_modules = ['autopylot', 'AutoPylot', 'core', 'cli', project_name.lower()]
  \<close>
\<close>

definition internal_modules :: "env \<Rightarrow> string \<Rightarrow> string list" where
  "internal_modules e directory =
     [''autopylot'', ''AutoPylot'', ''core'', ''cli'', lower (basename (abspath e directory))]"

text \<open>\<^verbatim>\<open>mappings.get(module_name, module_name)\<close>.\<close>

definition mapped_name :: "(string \<rightharpoonup> string) \<Rightarrow> string \<Rightarrow> string" where
  "mapped_name mappings module_name =
     (case mappings module_name of Some package_name \<Rightarrow> package_name | None \<Rightarrow> module_name)"

text \<open>
  \<^verbatim>\<open>
  missing_packages = []
  for module_name in all_imports:
      if module_name in internal_modules or is_stdlib_module(module_name):
          continue
      if not is_module_available(module_name):
          package_name = mappings.get(module_name, module_name)
          missing_packages.append((module_name, package_name))
  \<close>
\<close>

fun missing_packages :: "env \<Rightarrow> string list \<Rightarrow> string list \<Rightarrow> (string \<times> string) list" where
  "missing_packages e internal [] = []"
| "missing_packages e internal (module_name # rest) =
     (if module_name \<in> set internal \<or> is_stdlib_module e module_name
      then missing_packages e internal rest
      else if \<not> is_module_available e module_name
           then (module_name, mapped_name (load_mappings e) module_name)
                  # missing_packages e internal rest
      else missing_packages e internal rest)"

text \<open>\<^verbatim>\<open>install_missing_packages(directory)\<close>, as the list of what it prints and installs.\<close>

definition install_missing_packages :: "env \<Rightarrow> string \<Rightarrow> event list" where
  "install_missing_packages e directory =
     (let (all_imports, out) = collect_all_imports e directory
      in if all_imports = [] then out @ [Print NoImports]
         else
           let out1 = out @ [Print (FoundImports (length all_imports))];
               missing = missing_packages e (internal_modules e directory) all_imports
           in if missing = [] then out1 @ [Print AllInstalled]
              else out1 @ [Print (FoundMissing (length missing))]
                     @ concat (map (\<lambda>(module_name, package_name). install_package e package_name)
                                   missing)
                     @ [Print InstallationComplete])"

subsection \<open>What a run is observed by\<close>

text \<open>The project-wide import names and the missing pairs a run computes.\<close>

definition all_imports_of :: "env \<Rightarrow> string \<Rightarrow> string list" where
  "all_imports_of e directory = fst (collect_all_imports e directory)"

definition missing_of :: "env \<Rightarrow> string \<Rightarrow> (string \<times> string) list" where
  "missing_of e directory =
     missing_packages e (internal_modules e directory) (all_imports_of e directory)"

text \<open>
  The environment a run leaves behind: the installer is called for the missing pairs in
  order (\<^verbatim>\<open>cli.py\<close> lines 92 and 93), after the missing list has been computed.
\<close>

definition after_run :: "env \<Rightarrow> string \<Rightarrow> env" where
  "after_run e directory =
     fold (\<lambda>(module_name, package_name) e'. installed_env e' package_name)
          (missing_of e directory) e"

text \<open>
  The classifier as claim C3 words it, to be compared with \<open>is_stdlib_module\<close>: the name
  is a builtin name, or a directory of that name or a single-file module of that name (the
  file \<^verbatim>\<open>name.py\<close>) exists on a search path entry that is not a third-party package
  directory, or the name is in the literal list. A third-party package directory is
  recognised as the code does it, by the end of the entry.
\<close>

definition stdlib_as_claimed :: "env \<Rightarrow> string \<Rightarrow> bool" where
  "stdlib_as_claimed e m \<longleftrightarrow>
     m \<in> set (builtin_module_names e)
     \<or> (\<exists>p\<in>set (sys_path e).
           \<not> (endswith p ''site-packages'' \<or> endswith p ''dist-packages'')
           \<and> (path_kind e (path_join p m) = Some Directory
                \<or> path_kind e (path_join p (m @ ''.py'')) = Some RegularFile))
     \<or> m \<in> set stdlib_modules"

text \<open>The package names the installer was invoked with, in order.\<close>

fun installs :: "event list \<Rightarrow> string list" where
  "installs [] = []"
| "installs (Install p ok # evs) = p # installs evs"
| "installs (Print m # evs) = installs evs"

subsection \<open>Two projects to run the model on\<close>

text \<open>
  A project \<^verbatim>\<open>/home/dev/Shop\<close> with two files: \<^verbatim>\<open>main.py\<close> imports \<^verbatim>\<open>requests\<close>,
  \<^verbatim>\<open>os\<close> and \<^verbatim>\<open>mymodule\<close>; \<^verbatim>\<open>mymodule.py\<close>, beside it, imports nothing. The tool runs
  from its console script, so the first entry of \<^verbatim>\<open>sys.path\<close> is the directory of that
  script and the project directory is not on the search path. Neither \<^verbatim>\<open>requests\<close> nor
  \<^verbatim>\<open>mymodule\<close> resolves. Outside the project, \<^verbatim>\<open>/tmp/sample.py\<close> holds the two lines
  \<^verbatim>\<open>import foo\<close> and \<^verbatim>\<open>from bar.baz import qux\<close>.
\<close>

definition shop_env :: env where
  "shop_env =
     \<lparr> builtin_module_names = [''sys'', ''builtins'', ''time'', ''posix''],
       sys_path = [''/usr/local/bin'', ''/usr/lib/python3.11'',
                   ''/usr/lib/python3.11/site-packages''],
       path_kind = map_of
         [(''/usr/lib/python3.11/os.py'', RegularFile), (''/usr/lib/python3.11/json'', Directory),
          (''/home/dev/Shop/main.py'', RegularFile),
          (''/home/dev/Shop/mymodule.py'', RegularFile)],
       getcwd = ''/home/dev/Shop'',
       walk = (\<lambda>d. if d = ''/home/dev/Shop''
                   then [(''/home/dev/Shop'', [], [''main.py'', ''mymodule.py''])] else []),
       read_source = map_of
         [(''/home/dev/Shop/main.py'',
             Parsed [Import [''requests''], Import [''os''], Other, Import [''mymodule'']]),
          (''/home/dev/Shop/mymodule.py'', Parsed [Other]),
          (''/tmp/sample.py'',
             Parsed [Import [''foo''], ImportFrom ''bar.baz'' [''qux'']])],
       is_module_available = (\<lambda>m. m \<in> set [''os'', ''sys'', ''json'', ''time'']),
       load_mappings = map_of [(''cv2'', ''opencv-python''), (''PIL'', ''Pillow'')],
       package_manager = (\<lambda>p. True),
       provides = (\<lambda>p. [p]) \<rparr>"

text \<open>
  The same project when the tool runs as \<^verbatim>\<open>python -m AutoPylot.cli\<close> from the project
  directory: that directory is then the first entry of \<^verbatim>\<open>sys.path\<close>.
\<close>

definition shop_env_on_path :: env where
  "shop_env_on_path = shop_env \<lparr> sys_path := ''/home/dev/Shop'' # sys_path shop_env \<rparr>"

text \<open>
  A project \<^verbatim>\<open>/srv/Vision\<close> with a file that does not parse, names that the mapping
  table renames, names of the tool itself, the project's own name in two spellings, and
  \<^verbatim>\<open>turtle\<close>, which is in the literal list but neither on the search path nor resolvable.
  The directory of the console script, first on the search path, holds the script and an
  executable \<^verbatim>\<open>docker\<close>, both regular files. The package manager fails on \<^verbatim>\<open>bar\<close>. In the
  package index, \<^verbatim>\<open>opencv-python\<close> holds the module \<^verbatim>\<open>cv2\<close>, \<^verbatim>\<open>Pillow\<close> holds \<^verbatim>\<open>PIL\<close>,
  the package \<^verbatim>\<open>Vision\<close> holds a module \<^verbatim>\<open>vision\<close>, and every other package holds a module
  of its own name.
\<close>

definition vision_env :: env where
  "vision_env =
     \<lparr> builtin_module_names = [''sys'', ''builtins'', ''time'', ''posix''],
       sys_path = [''/usr/local/bin'', ''/usr/lib/python3.11'',
                   ''/usr/lib/python3.11/site-packages''],
       path_kind = map_of
         [(''/usr/local/bin/autopylot'', RegularFile), (''/usr/local/bin/docker'', RegularFile),
          (''/usr/lib/python3.11/os.py'', RegularFile), (''/usr/lib/python3.11/json'', Directory),
          (''/usr/lib/python3.11/site-packages/numpy'', Directory)],
       getcwd = ''/srv/Vision'',
       walk = (\<lambda>d. if d = ''/srv/Vision''
                   then [(''/srv/Vision'', [''pkg''], [''main.py'', ''notes.txt'']),
                         (''/srv/Vision/pkg'', [], [''broken.py'', ''camera.py''])]
                   else []),
       read_source = map_of
         [(''/srv/Vision/main.py'',
             Parsed [Import [''cv2'', ''numpy.linalg''], ImportFrom ''bar.baz'' [''qux''],
                     Import [''core''], ImportFrom ''Vision.models'' [''Item''],
                     Import [''json'']]),
          (''/srv/Vision/pkg/broken.py'', Unparsable),
          (''/srv/Vision/pkg/camera.py'',
             Parsed [ImportFrom ''PIL.Image'' [''open''], Import [''os.path''],
                     Import [''vision''], Import [''cv2''], Import [''turtle'']])],
       is_module_available = (\<lambda>m. m \<in> set [''os'', ''sys'', ''json'', ''time'', ''numpy'']),
       load_mappings = map_of [(''cv2'', ''opencv-python''), (''PIL'', ''Pillow'')],
       package_manager = (\<lambda>p. p \<noteq> ''bar''),
       provides = (\<lambda>p. case map_of [(''opencv-python'', [''cv2'']), (''Pillow'', [''PIL'']),
                                        (''Vision'', [''vision''])] p of
                          Some ms \<Rightarrow> ms
                        | None \<Rightarrow> [p]) \<rparr>"

text \<open>
  The environment after a first run on \<^verbatim>\<open>/home/dev/Shop\<close> in which the two names that
  were missing have become resolvable, and nothing else has changed.
\<close>

definition shop_env_after :: env where
  "shop_env_after =
     shop_env \<lparr> is_module_available :=
       (\<lambda>m. m \<in> set [''os'', ''sys'', ''json'', ''time'', ''requests'', ''mymodule'']) \<rparr>"

text \<open>
  \<^verbatim>\<open>/srv/Vision\<close> with a package manager that fails on nothing, and \<^verbatim>\<open>/srv/Vision\<close> with a
  search path whose last entry is written with a slash at its end.
\<close>

definition vision_env_ok :: env where
  "vision_env_ok = vision_env \<lparr> package_manager := (\<lambda>p. True) \<rparr>"

definition vision_env_slash :: env where
  "vision_env_slash =
     vision_env \<lparr> sys_path := [''/usr/local/bin'', ''/usr/lib/python3.11'',
                               ''/usr/lib/python3.11/site-packages/''] \<rparr>"

section \<open>Properties\<close>

subsection \<open>The loops\<close>

lemma set_update_set: "set (set_update a xs) = set a \<union> set xs"
  unfolding set_update_def by (induction xs arbitrary: a) auto

lemma set_update_distinct: "distinct a \<Longrightarrow> distinct (set_update a xs)"
  unfolding set_update_def by (induction xs arbitrary: a) auto

lemma collect_loop_set:
  "set (fst (collect_loop e fs a out)) =
     set a \<union> (\<Union>f\<in>set fs. case scan_imports e f of Inr ns \<Rightarrow> set ns | Inl err \<Rightarrow> {})"
  by (induction fs arbitrary: a out) (auto simp: set_update_set split: sum.splits)

lemma collect_loop_distinct: "distinct a \<Longrightarrow> distinct (fst (collect_loop e fs a out))"
  by (induction fs arbitrary: a out) (auto simp: set_update_distinct split: sum.splits)

lemma collect_loop_out:
  "snd (collect_loop e fs a out) =
     out @ concat (map (\<lambda>f. case scan_imports e f of
                               Inr ns \<Rightarrow> []
                             | Inl err \<Rightarrow> [Print (ErrorScanning f err)]) fs)"
  by (induction fs arbitrary: a out) (auto split: sum.splits)

lemma all_imports_distinct: "distinct (all_imports_of e d)"
  by (simp add: all_imports_of_def collect_all_imports_def Let_def collect_loop_distinct)

lemma missing_packages_filter:
  "missing_packages e internal ms =
     map (\<lambda>m. (m, mapped_name (load_mappings e) m))
         (filter (\<lambda>m. m \<notin> set internal \<and> \<not> is_stdlib_module e m \<and> \<not> is_module_available e m)
                 ms)"
  by (induction ms) auto

lemma missing_names:
  "map fst (missing_of e d) =
     filter (\<lambda>m. m \<notin> set (internal_modules e d) \<and> \<not> is_stdlib_module e m
                  \<and> \<not> is_module_available e m)
            (all_imports_of e d)"
  by (simp add: missing_of_def missing_packages_filter comp_def)

lemma missing_iff:
  "(m, p) \<in> set (missing_of e d) \<longleftrightarrow>
     m \<in> set (all_imports_of e d) \<and> m \<notin> set (internal_modules e d)
     \<and> \<not> is_stdlib_module e m \<and> \<not> is_module_available e m
     \<and> p = mapped_name (load_mappings e) m"
  by (auto simp: missing_of_def missing_packages_filter)

lemma missing_distinct: "distinct (map fst (missing_of e d))"
  by (simp add: missing_names all_imports_distinct)

lemma search_paths_iff:
  "search_paths e m ps \<longleftrightarrow>
     (\<exists>p\<in>set ps. \<not> (endswith p ''site-packages'' \<or> endswith p ''dist-packages'')
         \<and> (path_exists e (path_join p m) \<or> path_exists e (path_join p (m @ ''.py''))))"
  by (induction ps) auto

lemma listed_is_stdlib: "m \<in> set stdlib_modules \<Longrightarrow> is_stdlib_module e m"
  by (simp add: is_stdlib_module_def)

lemma installs_append: "installs (xs @ ys) = installs xs @ installs ys"
  by (induction xs rule: installs.induct) auto

lemma installs_calls:
  "concat (map (\<lambda>(m, p). install_package e p) ms) =
     map (\<lambda>(m, p). Install p (package_manager e p)) ms"
  by (induction ms) (auto simp: install_package_def)

lemma installs_map_Install: "installs (map (\<lambda>(m, p). Install p (ok p)) ms) = map snd ms"
  by (induction ms) auto

lemma installs_collect_loop: "installs (snd (collect_loop e fs a out)) = installs out"
  by (induction fs arbitrary: a out) (auto simp: installs_append split: sum.splits)

lemma installs_collect: "installs (snd (collect_all_imports e d)) = []"
  by (simp add: collect_all_imports_def Let_def installs_collect_loop)

text \<open>The three ways a run ends.\<close>

lemma run_no_imports:
  "all_imports_of e d = [] \<Longrightarrow>
     install_missing_packages e d = snd (collect_all_imports e d) @ [Print NoImports]"
  by (simp add: install_missing_packages_def all_imports_of_def case_prod_beta)

lemma run_nothing_missing:
  "all_imports_of e d \<noteq> [] \<Longrightarrow> missing_of e d = [] \<Longrightarrow>
     install_missing_packages e d =
       snd (collect_all_imports e d)
         @ [Print (FoundImports (length (all_imports_of e d))), Print AllInstalled]"
  by (simp add: install_missing_packages_def all_imports_of_def missing_of_def Let_def
      case_prod_beta)

lemma run_missing:
  "missing_of e d \<noteq> [] \<Longrightarrow>
     install_missing_packages e d =
       snd (collect_all_imports e d)
         @ [Print (FoundImports (length (all_imports_of e d))),
            Print (FoundMissing (length (missing_of e d)))]
         @ map (\<lambda>(m, p). Install p (package_manager e p)) (missing_of e d)
         @ [Print InstallationComplete]"
proof -
  assume ne: "missing_of e d \<noteq> []"
  then have "all_imports_of e d \<noteq> []"
    by (auto simp: missing_of_def)
  with ne show ?thesis
    by (simp add: install_missing_packages_def all_imports_of_def missing_of_def Let_def
        installs_calls case_prod_beta)
qed

lemma installs_run: "installs (install_missing_packages e d) = map snd (missing_of e d)"
proof (cases "missing_of e d = []")
  case False
  then show ?thesis
    by (simp add: run_missing installs_append installs_collect installs_map_Install)
next
  case True
  then show ?thesis
    by (cases "all_imports_of e d = []")
       (simp_all add: run_no_imports run_nothing_missing installs_append installs_collect)
qed

lemma singleton_list: "distinct xs \<Longrightarrow> set xs = {x} \<Longrightarrow> xs = [x]"
  by (cases xs) (auto simp: insert_eq_iff dest: subset_singletonD)

lemma missing_snd:
  "map snd (missing_of e d) = map (mapped_name (load_mappings e)) (map fst (missing_of e d))"
  by (simp add: missing_of_def missing_packages_filter)

lemma mapped_name_dom:
  "mapped_name mappings m = (if m \<in> dom mappings then the (mappings m) else m)"
  by (auto simp: mapped_name_def split: option.splits)

lemma last_run_no_imports:
  "all_imports_of e d = [] \<Longrightarrow> last (install_missing_packages e d) = Print NoImports"
  by (simp add: run_no_imports)

lemma last_run_nothing_missing:
  "all_imports_of e d \<noteq> [] \<Longrightarrow> missing_of e d = [] \<Longrightarrow>
     last (install_missing_packages e d) = Print AllInstalled"
  by (simp add: run_nothing_missing)

lemma last_run_missing:
  "missing_of e d \<noteq> [] \<Longrightarrow> last (install_missing_packages e d) = Print InstallationComplete"
  by (simp add: run_missing)

lemma missing_pairs_distinct: "distinct (missing_of e d)"
  using missing_distinct [of e d] by (simp add: distinct_map)

subsection \<open>Names\<close>

lemma internal_modules_iff:
  "n \<in> set (internal_modules e d) \<longleftrightarrow>
     n \<in> {''autopylot'', ''AutoPylot'', ''core'', ''cli''}
     \<or> n = lower (basename (abspath e d))"
  by (auto simp: internal_modules_def)

lemma internal_modules_set:
  "set (internal_modules e d) =
     {''autopylot'', ''AutoPylot'', ''core'', ''cli'', lower (basename (abspath e d))}"
  by (simp add: internal_modules_def)

lemma os_listed: "''os'' \<in> set stdlib_modules"
  by (simp add: stdlib_modules_def)

lemma top_level_no_dot: "CHR ''.'' \<notin> set (top_level m)"
  unfolding top_level_def by (induction m) auto

lemma top_level_dotted:
  "CHR ''.'' \<notin> set a \<Longrightarrow> top_level (a @ CHR ''.'' # b) = a"
  unfolding top_level_def by (induction a) auto

lemma top_level_plain: "CHR ''.'' \<notin> set a \<Longrightarrow> top_level a = a"
  unfolding top_level_def by (induction a) auto

lemma stmt_imports_set:
  "set (stmt_imports s) =
     top_level ` (case s of Import ms \<Rightarrow> set ms | ImportFrom m xs \<Rightarrow> {m} | Other \<Rightarrow> {})"
  by (cases s) simp_all

subsection \<open>A change of what resolves\<close>

text \<open>What does not read \<open>is_module_available\<close> is the same after that field is changed.\<close>

lemma scan_imports_available:
  "scan_imports (e\<lparr>is_module_available := a\<rparr>) f = scan_imports e f"
  by (simp add: scan_imports_def)

lemma collect_loop_available:
  "collect_loop (e\<lparr>is_module_available := a\<rparr>) fs acc out = collect_loop e fs acc out"
  by (induction fs arbitrary: acc out) (simp_all add: scan_imports_available split: sum.splits)

lemma all_imports_available:
  "all_imports_of (e\<lparr>is_module_available := a\<rparr>) d = all_imports_of e d"
  by (simp add: all_imports_of_def collect_all_imports_def find_python_files_def
      collect_loop_available)

lemma internal_modules_available:
  "internal_modules (e\<lparr>is_module_available := a\<rparr>) d = internal_modules e d"
  by (simp add: internal_modules_def abspath_def)

lemma search_paths_available:
  "search_paths (e\<lparr>is_module_available := a\<rparr>) m ps = search_paths e m ps"
  by (induction ps) (simp_all add: path_exists_def)

lemma is_stdlib_module_available:
  "is_stdlib_module (e\<lparr>is_module_available := a\<rparr>) m = is_stdlib_module e m"
  by (simp add: is_stdlib_module_def search_paths_available)

text \<open>
  When every name that resolved still resolves and every name that was missing resolves
  now, nothing is missing.
\<close>

lemma second_run_general:
  assumes kept: "\<forall>m. is_module_available e m \<longrightarrow> avail' m"
    and installed: "\<forall>(m, p)\<in>set (missing_of e d). avail' m"
  shows "missing_of (e\<lparr>is_module_available := avail'\<rparr>) d = []
     \<and> installs (install_missing_packages (e\<lparr>is_module_available := avail'\<rparr>) d) = []"
proof -
  let ?e' = "e\<lparr>is_module_available := avail'\<rparr>"
  have "map fst (missing_of ?e' d) = []"
    unfolding missing_names filter_empty_conv
  proof (intro ballI)
    fix m
    assume "m \<in> set (all_imports_of ?e' d)"
    then have m: "m \<in> set (all_imports_of e d)"
      by (simp add: all_imports_available)
    show "\<not> (m \<notin> set (internal_modules ?e' d) \<and> \<not> is_stdlib_module ?e' m
              \<and> \<not> is_module_available ?e' m)"
    proof (cases "m \<in> set (internal_modules e d) \<or> is_stdlib_module e m")
      case True
      then show ?thesis
        by (auto simp: internal_modules_available is_stdlib_module_available)
    next
      case False
      show ?thesis
      proof (cases "is_module_available e m")
        case True
        with kept show ?thesis by simp
      next
        case False
        with \<open>\<not> (m \<in> set (internal_modules e d) \<or> is_stdlib_module e m)\<close> m
        have "(m, mapped_name (load_mappings e) m) \<in> set (missing_of e d)"
          by (simp add: missing_iff)
        with installed show ?thesis by auto
      qed
    qed
  qed
  then have none: "missing_of ?e' d = []"
    by simp
  then show ?thesis
    by (simp add: installs_run)
qed

subsection \<open>What the installations leave behind\<close>

lemma installed_env_only_available:
  "installed_env e p = e\<lparr>is_module_available := is_module_available (installed_env e p)\<rparr>"
  by (simp add: installed_env_def)

lemma installed_env_fields:
  "package_manager (installed_env e p) = package_manager e"
  "provides (installed_env e p) = provides e"
  by (simp_all add: installed_env_def)

lemma installed_env_available:
  "is_module_available (installed_env e p) m \<longleftrightarrow>
     is_module_available e m \<or> (package_manager e p \<and> m \<in> set (provides e p))"
  by (simp add: installed_env_def)

lemma fold_installed_only_available:
  "fold (\<lambda>(m, p) e'. installed_env e' p) ps e =
     e\<lparr>is_module_available :=
          is_module_available (fold (\<lambda>(m, p) e'. installed_env e' p) ps e)\<rparr>"
proof (induction ps arbitrary: e)
  case Nil
  show ?case by simp
next
  case (Cons x ps)
  obtain m p where x: "x = (m, p)" by (cases x)
  let ?rest = "fold (\<lambda>(m, p) e'. installed_env e' p) ps (installed_env e p)"
  have "?rest = (installed_env e p)\<lparr>is_module_available := is_module_available ?rest\<rparr>"
    by (rule Cons.IH)
  also have "\<dots> = e\<lparr>is_module_available := is_module_available ?rest\<rparr>"
    by (subst installed_env_only_available) simp
  finally show ?case by (simp add: x)
qed

lemma fold_installed_available:
  "is_module_available (fold (\<lambda>(m, p) e'. installed_env e' p) ps e) n \<longleftrightarrow>
     is_module_available e n
     \<or> (\<exists>(m, p)\<in>set ps. package_manager e p \<and> n \<in> set (provides e p))"
  by (induction ps arbitrary: e) (auto simp: installed_env_available installed_env_fields)

lemma after_run_only_available:
  "after_run e d = e\<lparr>is_module_available := is_module_available (after_run e d)\<rparr>"
  unfolding after_run_def by (rule fold_installed_only_available)

lemma after_run_available:
  "is_module_available (after_run e d) n \<longleftrightarrow>
     is_module_available e n
     \<or> (\<exists>(m, p)\<in>set (missing_of e d). package_manager e p \<and> n \<in> set (provides e p))"
  unfolding after_run_def by (rule fold_installed_available)

subsection \<open>The classifier as the claim words it\<close>

lemma claimed_is_stdlib: "stdlib_as_claimed e m \<Longrightarrow> is_stdlib_module e m"
  by (auto simp: stdlib_as_claimed_def is_stdlib_module_def search_paths_iff path_exists_def)

subsection \<open>Facts about the two projects\<close>

lemma vision_files:
  "find_python_files vision_env ''/srv/Vision'' =
     [''/srv/Vision/main.py'', ''/srv/Vision/pkg/broken.py'', ''/srv/Vision/pkg/camera.py'']"
  by code_simp

lemma vision_scans:
  "scan_imports vision_env ''/srv/Vision/main.py'' =
     Inr [''cv2'', ''numpy'', ''bar'', ''core'', ''Vision'', ''json'']"
  "scan_imports vision_env ''/srv/Vision/pkg/broken.py'' = Inl SyntaxError"
  "scan_imports vision_env ''/srv/Vision/pkg/camera.py'' =
     Inr [''PIL'', ''os'', ''vision'', ''cv2'', ''turtle'']"
  by code_simp+

lemma vision_internal:
  "internal_modules vision_env ''/srv/Vision'' =
     [''autopylot'', ''AutoPylot'', ''core'', ''cli'', ''vision'']"
  by code_simp

lemma vision_all_imports:
  "all_imports_of vision_env ''/srv/Vision'' =
     [''cv2'', ''numpy'', ''bar'', ''core'', ''Vision'', ''json'', ''PIL'', ''os'', ''vision'',
      ''turtle'']"
  by code_simp

lemma vision_missing:
  "missing_of vision_env ''/srv/Vision'' =
     [(''cv2'', ''opencv-python''), (''bar'', ''bar''), (''Vision'', ''Vision''),
      (''PIL'', ''Pillow'')]"
  by code_simp

lemma vision_run:
  "install_missing_packages vision_env ''/srv/Vision'' =
     [Print (Scanning 3), Print (ErrorScanning ''/srv/Vision/pkg/broken.py'' SyntaxError),
      Print (FoundImports 10), Print (FoundMissing 4),
      Install ''opencv-python'' True, Install ''bar'' False, Install ''Vision'' True,
      Install ''Pillow'' True, Print InstallationComplete]"
  by code_simp

lemma vision_installs:
  "installs (install_missing_packages vision_env ''/srv/Vision'') =
     [''opencv-python'', ''bar'', ''Vision'', ''Pillow'']"
  by (simp add: vision_run)

lemma vision_available:
  "is_module_available vision_env m \<longleftrightarrow>
     m \<in> set [''os'', ''sys'', ''json'', ''time'', ''numpy'']"
  by (simp add: vision_env_def)

lemma vision_mappings:
  "load_mappings vision_env ''cv2'' = Some ''opencv-python''"
  "load_mappings vision_env ''bar'' = None"
  by (simp_all add: vision_env_def)

lemma shop_internal:
  "internal_modules shop_env ''/home/dev/Shop'' =
     [''autopylot'', ''AutoPylot'', ''core'', ''cli'', ''shop'']"
  by code_simp

lemma shop_all_imports:
  "all_imports_of shop_env ''/home/dev/Shop'' = [''requests'', ''os'', ''mymodule'']"
  by code_simp

lemma shop_missing:
  "missing_of shop_env ''/home/dev/Shop'' =
     [(''requests'', ''requests''), (''mymodule'', ''mymodule'')]"
  by code_simp

lemma shop_run:
  "install_missing_packages shop_env ''/home/dev/Shop'' =
     [Print (Scanning 2), Print (FoundImports 3), Print (FoundMissing 2),
      Install ''requests'' True, Install ''mymodule'' True, Print InstallationComplete]"
  by code_simp

lemma shop_available:
  "is_module_available shop_env m \<longleftrightarrow> m \<in> set [''os'', ''sys'', ''json'', ''time'']"
  by (simp add: shop_env_def)

lemma shop_after_missing: "missing_of shop_env_after ''/home/dev/Shop'' = []"
  by code_simp

lemma shop_after_all_imports:
  "all_imports_of shop_env_after ''/home/dev/Shop'' = [''requests'', ''os'', ''mymodule'']"
  by code_simp

lemma shop_after_run:
  "install_missing_packages shop_env_after ''/home/dev/Shop'' =
     [Print (Scanning 2), Print (FoundImports 3), Print AllInstalled]"
  by code_simp

lemma shop_on_path_all_imports:
  "all_imports_of shop_env_on_path ''/home/dev/Shop'' = [''requests'', ''os'', ''mymodule'']"
  by code_simp

lemma shop_on_path_facts:
  "\<not> is_module_available shop_env_on_path ''requests''"
  "\<not> is_stdlib_module shop_env_on_path ''requests''"
  "lower (basename (abspath shop_env_on_path ''/home/dev/Shop'')) = ''shop''"
  "load_mappings shop_env_on_path ''requests'' = None"
  "is_stdlib_module shop_env_on_path ''mymodule''"
  "\<not> is_module_available shop_env_on_path ''mymodule''"
  by code_simp+

lemma shop_facts:
  "\<not> is_module_available shop_env ''requests''"
  "is_stdlib_module shop_env ''os''"
  "\<not> is_stdlib_module shop_env ''mymodule''"
  "\<not> is_module_available shop_env ''mymodule''"
  "find_python_files shop_env ''/home/dev/Shop'' =
     [''/home/dev/Shop/main.py'', ''/home/dev/Shop/mymodule.py'']"
  "read_source shop_env ''/tmp/sample.py'' =
     Some (Parsed [Import [''foo''], ImportFrom ''bar.baz'' [''qux'']])"
  by code_simp+

lemma vision_docker:
  "is_stdlib_module vision_env ''docker''"
  "\<not> stdlib_as_claimed vision_env ''docker''"
  "''docker'' \<notin> set (builtin_module_names vision_env)"
  "''docker'' \<notin> set stdlib_modules"
  "path_kind vision_env ''/usr/local/bin/docker'' = Some RegularFile"
  "path_join ''/usr/local/bin'' ''docker'' = ''/usr/local/bin/docker''"
  "sys_path vision_env =
     [''/usr/local/bin'', ''/usr/lib/python3.11'', ''/usr/lib/python3.11/site-packages'']"
  by code_simp+

lemma vision_classified:
  "stdlib_as_claimed vision_env ''json''"
  "\<not> is_stdlib_module vision_env ''numpy''"
  "is_stdlib_module vision_env_slash ''numpy''"
  "is_stdlib_module vision_env ''sys''"
  "is_stdlib_module vision_env ''turtle''"
  by code_simp+

lemma vision_ok_run:
  "install_missing_packages vision_env_ok ''/srv/Vision'' =
     [Print (Scanning 3), Print (ErrorScanning ''/srv/Vision/pkg/broken.py'' SyntaxError),
      Print (FoundImports 10), Print (FoundMissing 4),
      Install ''opencv-python'' True, Install ''bar'' True, Install ''Vision'' True,
      Install ''Pillow'' True, Print InstallationComplete]"
  by code_simp

lemma vision_ok_second:
  "missing_of (after_run vision_env_ok ''/srv/Vision'') ''/srv/Vision'' =
     [(''Vision'', ''Vision'')]"
  "install_missing_packages (after_run vision_env_ok ''/srv/Vision'') ''/srv/Vision'' =
     [Print (Scanning 3), Print (ErrorScanning ''/srv/Vision/pkg/broken.py'' SyntaxError),
      Print (FoundImports 10), Print (FoundMissing 1), Install ''Vision'' True,
      Print InstallationComplete]"
  "provides vision_env_ok ''Vision'' = [''vision'']"
  by code_simp+

lemma shop_index:
  "package_manager shop_env p"
  "provides shop_env p = [p]"
  by (simp_all add: shop_env_def)

section \<open>The claims\<close>

subsection \<open>C1: internal names\<close>

text \<open>
  Claim C1 as stated fails on the run on \<^verbatim>\<open>/home/dev/Shop\<close> from the console script.
  The one file with imports, \<^verbatim>\<open>main.py\<close>, imports \<^verbatim>\<open>requests\<close> (not installed), \<^verbatim>\<open>os\<close>
  (standard library) and \<^verbatim>\<open>mymodule\<close>, which is the project's own file \<^verbatim>\<open>mymodule.py\<close>.
  The internal names are the four fixed ones and \<^verbatim>\<open>shop\<close>; \<^verbatim>\<open>mymodule\<close> is not among
  them, it is not on the search path and it does not resolve, so it is reported missing
  beside \<^verbatim>\<open>requests\<close> and the installer is called twice.
\<close>

theorem internal_exclusion_counterexample:
  "all_imports_of shop_env ''/home/dev/Shop'' = [''requests'', ''os'', ''mymodule'']
   \<and> \<not> is_module_available shop_env ''requests''
   \<and> is_stdlib_module shop_env ''os''
   \<and> find_python_files shop_env ''/home/dev/Shop'' =
       [''/home/dev/Shop/main.py'', ''/home/dev/Shop/mymodule.py'']
   \<and> internal_modules shop_env ''/home/dev/Shop'' =
       [''autopylot'', ''AutoPylot'', ''core'', ''cli'', ''shop'']
   \<and> missing_of shop_env ''/home/dev/Shop'' =
       [(''requests'', ''requests''), (''mymodule'', ''mymodule'')]
   \<and> fst ` set (missing_of shop_env ''/home/dev/Shop'') \<noteq> {''requests''}
   \<and> installs (install_missing_packages shop_env ''/home/dev/Shop'') =
       [''requests'', ''mymodule'']"
  by (simp add: shop_all_imports shop_facts shop_internal shop_missing shop_run)

text \<open>
  Claim C1, amended. The names the orchestrator excludes as internal are exactly
  \<^verbatim>\<open>autopylot\<close>, \<^verbatim>\<open>AutoPylot\<close>, \<^verbatim>\<open>core\<close>, \<^verbatim>\<open>cli\<close> and the lower-cased basename of the
  absolute project directory; a file of the project is not internal by being one. For a
  project whose import names are \<^verbatim>\<open>requests\<close>, \<^verbatim>\<open>os\<close> and \<^verbatim>\<open>mymodule\<close>, where
  \<^verbatim>\<open>requests\<close> neither resolves nor is classified as standard library, is not the project's
  name and has no entry in the mapping table, the missing list is exactly the pair of
  \<^verbatim>\<open>requests\<close> and the installer is called exactly once, with \<^verbatim>\<open>requests\<close>, provided
  \<^verbatim>\<open>mymodule\<close> is excluded on one of the grounds the code has: it is the lower-cased
  project name, or it is classified as standard library (as when the project directory is
  on the search path), or it resolves. \<^verbatim>\<open>os\<close> is excluded in every environment.
\<close>

theorem internal_exclusion_amended:
  assumes names: "set (all_imports_of e d) = {''requests'', ''os'', ''mymodule''}"
    and requests: "\<not> is_module_available e ''requests''" "\<not> is_stdlib_module e ''requests''"
      "lower (basename (abspath e d)) \<noteq> ''requests''" "load_mappings e ''requests'' = None"
    and mymodule: "lower (basename (abspath e d)) = ''mymodule''
      \<or> is_stdlib_module e ''mymodule'' \<or> is_module_available e ''mymodule''"
  shows "set (internal_modules e d) =
           {''autopylot'', ''AutoPylot'', ''core'', ''cli'', lower (basename (abspath e d))}
     \<and> missing_of e d = [(''requests'', ''requests'')]
     \<and> installs (install_missing_packages e d) = [''requests'']"
proof -
  let ?keep = "\<lambda>m. m \<notin> set (internal_modules e d) \<and> \<not> is_stdlib_module e m
                      \<and> \<not> is_module_available e m"
  have os: "\<not> ?keep ''os''"
    by (simp add: listed_is_stdlib os_listed)
  have mm: "\<not> ?keep ''mymodule''"
    using mymodule by (auto simp: internal_modules_set)
  have rq: "?keep ''requests''"
    using requests by (auto simp: internal_modules_set)
  have "set (map fst (missing_of e d)) = {''requests''}"
    unfolding missing_names set_filter names using os mm rq by auto
  with missing_distinct [of e d] have "map fst (missing_of e d) = [''requests'']"
    by (rule singleton_list)
  moreover have "mapped_name (load_mappings e) ''requests'' = ''requests''"
    using requests by (simp add: mapped_name_def)
  ultimately have missing: "missing_of e d = [(''requests'', ''requests'')]"
    using missing_snd [of e d] by (cases "missing_of e d") auto
  then show ?thesis
    by (simp add: internal_modules_set installs_run)
qed

text \<open>
  The same project run as a module from the project directory: \<^verbatim>\<open>mymodule.py\<close> is then
  found on the first entry of the search path.
\<close>

theorem internal_exclusion_on_path:
  "set (all_imports_of shop_env_on_path ''/home/dev/Shop'') = {''requests'', ''os'', ''mymodule''}
   \<and> ''mymodule'' \<notin> set (internal_modules shop_env_on_path ''/home/dev/Shop'')
   \<and> is_stdlib_module shop_env_on_path ''mymodule''
   \<and> missing_of shop_env_on_path ''/home/dev/Shop'' = [(''requests'', ''requests'')]
   \<and> installs (install_missing_packages shop_env_on_path ''/home/dev/Shop'') = [''requests'']"
proof -
  have names: "set (all_imports_of shop_env_on_path ''/home/dev/Shop'') =
      {''requests'', ''os'', ''mymodule''}"
    by (simp add: shop_on_path_all_imports)
  have base: "lower (basename (abspath shop_env_on_path ''/home/dev/Shop'')) \<noteq> ''requests''"
    by (simp add: shop_on_path_facts)
  have mm: "lower (basename (abspath shop_env_on_path ''/home/dev/Shop'')) = ''mymodule''
      \<or> is_stdlib_module shop_env_on_path ''mymodule''
      \<or> is_module_available shop_env_on_path ''mymodule''"
    by (simp add: shop_on_path_facts)
  note run = internal_exclusion_amended [OF names shop_on_path_facts(1,2) base
      shop_on_path_facts(4) mm]
  have "''mymodule'' \<notin> set (internal_modules shop_env_on_path ''/home/dev/Shop'')"
    using run [THEN conjunct1] by (simp add: shop_on_path_facts)
  with names run [THEN conjunct2] shop_on_path_facts(5) show ?thesis
    by blast
qed

subsection \<open>C2: the import scanner\<close>

text \<open>
  Claim C2. For every file that parses, the scanner returns the top-level segments of the
  module paths of its plain-import and from-import statements and nothing else, without
  duplicates; no returned name contains a dot; the top-level segment of a dotted path is
  what precedes its first dot, and a path without a dot is its own top-level segment. (The
  scanner is the one modelled from the specification.)
\<close>

theorem scan_imports_top_level:
  "read_source e f = Some (Parsed stmts) \<Longrightarrow>
     (\<exists>ns. scan_imports e f = Inr ns \<and> distinct ns
        \<and> set ns = top_level ` (\<Union>s\<in>set stmts. case s of Import ms \<Rightarrow> set ms
                                                  | ImportFrom m xs \<Rightarrow> {m} | Other \<Rightarrow> {})
        \<and> (\<forall>n\<in>set ns. CHR ''.'' \<notin> set n))
     \<and> (\<forall>a b. CHR ''.'' \<notin> set a \<longrightarrow> top_level (a @ CHR ''.'' # b) = a \<and> top_level a = a)"
proof (intro conjI allI impI)
  assume src: "read_source e f = Some (Parsed stmts)"
  let ?ns = "remdups (concat (map stmt_imports stmts))"
  have scan: "scan_imports e f = Inr ?ns"
    using src by (simp add: scan_imports_def)
  have names: "set ?ns = top_level ` (\<Union>s\<in>set stmts. case s of Import ms \<Rightarrow> set ms
                                                  | ImportFrom m xs \<Rightarrow> {m} | Other \<Rightarrow> {})"
    by (simp add: stmt_imports_set image_UN)
  have "\<forall>n\<in>set ?ns. CHR ''.'' \<notin> set n"
    unfolding names by (auto simp: top_level_no_dot)
  with scan names show "\<exists>ns. scan_imports e f = Inr ns \<and> distinct ns
        \<and> set ns = top_level ` (\<Union>s\<in>set stmts. case s of Import ms \<Rightarrow> set ms
                                                  | ImportFrom m xs \<Rightarrow> {m} | Other \<Rightarrow> {})
        \<and> (\<forall>n\<in>set ns. CHR ''.'' \<notin> set n)"
    by (intro exI [of _ ?ns]) simp
next
  fix a :: string and b
  assume "CHR ''.'' \<notin> set a"
  then show "top_level (a @ CHR ''.'' # b) = a" "top_level a = a"
    by (simp_all add: top_level_dotted top_level_plain)
qed

text \<open>
  A file holding exactly \<^verbatim>\<open>import foo\<close> and \<^verbatim>\<open>from bar.baz import qux\<close> gives the names
  \<^verbatim>\<open>foo\<close> and \<^verbatim>\<open>bar\<close>.
\<close>

theorem scan_imports_foo_bar:
  "read_source shop_env ''/tmp/sample.py'' =
     Some (Parsed [Import [''foo''], ImportFrom ''bar.baz'' [''qux'']])
   \<and> (\<exists>ns. scan_imports shop_env ''/tmp/sample.py'' = Inr ns \<and> set ns = {''foo'', ''bar''})"
proof -
  have src: "read_source shop_env ''/tmp/sample.py'' =
     Some (Parsed [Import [''foo''], ImportFrom ''bar.baz'' [''qux'']])"
    by (rule shop_facts)
  from scan_imports_top_level [OF src, THEN conjunct1]
  obtain ns where "scan_imports shop_env ''/tmp/sample.py'' = Inr ns"
    and "set ns = top_level ` (\<Union>s\<in>set [Import [''foo''], ImportFrom ''bar.baz'' [''qux'']].
            case s of Import ms \<Rightarrow> set ms | ImportFrom m xs \<Rightarrow> {m} | Other \<Rightarrow> {})"
    by blast
  moreover have "top_level ''foo'' = ''foo''" "top_level ''bar.baz'' = ''bar''"
    by (simp_all add: top_level_def)
  ultimately have "scan_imports shop_env ''/tmp/sample.py'' = Inr ns \<and> set ns = {''foo'', ''bar''}"
    by (simp add: insert_commute)
  with src show ?thesis by blast
qed

subsection \<open>C3: the standard-library classifier\<close>

text \<open>
  Claim C3 as stated fails in the environment of \<^verbatim>\<open>/srv/Vision\<close> on the name \<^verbatim>\<open>docker\<close>. It
  is no builtin name and is not in the literal list; the only entry of that name on the
  search path is the executable \<^verbatim>\<open>/usr/local/bin/docker\<close>, a regular file and no directory,
  and there is no \<^verbatim>\<open>docker.py\<close>. None of the three conditions of the claim holds, yet
  \<^verbatim>\<open>os.path.exists\<close> finds the file and \<^verbatim>\<open>is_stdlib_module\<close> returns true.
\<close>

theorem is_stdlib_module_counterexample:
  "''docker'' \<notin> set (builtin_module_names vision_env)
   \<and> ''docker'' \<notin> set stdlib_modules
   \<and> sys_path vision_env =
       [''/usr/local/bin'', ''/usr/lib/python3.11'', ''/usr/lib/python3.11/site-packages'']
   \<and> path_join ''/usr/local/bin'' ''docker'' = ''/usr/local/bin/docker''
   \<and> path_kind vision_env ''/usr/local/bin/docker'' = Some RegularFile
   \<and> \<not> stdlib_as_claimed vision_env ''docker''
   \<and> is_stdlib_module vision_env ''docker''"
  by (simp add: vision_docker)

text \<open>
  Claim C3, amended. For every environment and every import name, \<^verbatim>\<open>is_stdlib_module\<close>
  returns true if and only if (1) the name is in \<^verbatim>\<open>sys.builtin_module_names\<close>, or (2) for
  some entry of \<^verbatim>\<open>sys.path\<close> whose text does not end in \<^verbatim>\<open>site-packages\<close> or
  \<^verbatim>\<open>dist-packages\<close>, the file system has an entry of any kind, directory or file, at that
  entry joined with the name or with the name followed by \<^verbatim>\<open>.py\<close>, or (3) the name is in
  the literal list; otherwise it returns false. Every name the claim as first worded
  classifies as standard library is so classified by the code; the converse is what fails.
  The three tests read the environment only, so the order in which the code tries them does
  not show in the result.
\<close>

theorem is_stdlib_module_iff:
  "(is_stdlib_module e m \<longleftrightarrow>
      m \<in> set (builtin_module_names e)
      \<or> (\<exists>p\<in>set (sys_path e).
            \<not> (endswith p ''site-packages'' \<or> endswith p ''dist-packages'')
            \<and> (path_kind e (path_join p m) \<noteq> None
                 \<or> path_kind e (path_join p (m @ ''.py'')) \<noteq> None))
      \<or> m \<in> set stdlib_modules)
   \<and> (stdlib_as_claimed e m \<longrightarrow> is_stdlib_module e m)"
proof
  show "is_stdlib_module e m \<longleftrightarrow>
      m \<in> set (builtin_module_names e)
      \<or> (\<exists>p\<in>set (sys_path e).
            \<not> (endswith p ''site-packages'' \<or> endswith p ''dist-packages'')
            \<and> (path_kind e (path_join p m) \<noteq> None
                 \<or> path_kind e (path_join p (m @ ''.py'')) \<noteq> None))
      \<or> m \<in> set stdlib_modules"
    unfolding is_stdlib_module_def search_paths_iff path_exists_def by auto
  show "stdlib_as_claimed e m \<longrightarrow> is_stdlib_module e m"
    by (simp add: claimed_is_stdlib)
qed

text \<open>
  In the environment of \<^verbatim>\<open>/srv/Vision\<close>: \<^verbatim>\<open>json\<close> is a directory of the library path, as the
  claim has it; \<^verbatim>\<open>sys\<close> is a builtin name; \<^verbatim>\<open>turtle\<close> is only in the literal list;
  \<^verbatim>\<open>numpy\<close> exists under \<^verbatim>\<open>site-packages\<close> only and is not classified, but it is classified
  as soon as that entry of the search path is written with a slash at its end.
\<close>

theorem is_stdlib_module_examples:
  "stdlib_as_claimed vision_env ''json'' \<and> is_stdlib_module vision_env ''json''
   \<and> is_stdlib_module vision_env ''sys'' \<and> is_stdlib_module vision_env ''turtle''
   \<and> \<not> is_stdlib_module vision_env ''numpy''
   \<and> is_stdlib_module vision_env_slash ''numpy''"
proof -
  have "is_stdlib_module vision_env ''json''"
    using is_stdlib_module_iff [of vision_env "''json''", THEN conjunct2, THEN mp,
        OF vision_classified(1)] .
  then show ?thesis
    by (simp add: vision_classified)
qed

subsection \<open>C4: names of the literal list\<close>

text \<open>
  Claim C4. An import name that is in the literal list of \<^verbatim>\<open>is_stdlib_module\<close> is
  classified as standard library in every environment, so it is never the import name of a
  missing pair, whether or not it resolves; and the installer is called for the missing
  pairs only, once for each with its package name, so no call is made for that name.
\<close>

theorem listed_stdlib_never_missing:
  "m \<in> set stdlib_modules \<Longrightarrow>
     is_stdlib_module e m
     \<and> m \<notin> fst ` set (missing_of e d)
     \<and> installs (install_missing_packages e d) = map snd (missing_of e d)"
  by (auto simp: listed_is_stdlib missing_iff installs_run)

text \<open>
  \<^verbatim>\<open>/srv/Vision\<close> imports \<^verbatim>\<open>turtle\<close>, which does not resolve there and is not on the
  search path; it is not installed.
\<close>

theorem listed_stdlib_never_missing_turtle:
  "''turtle'' \<in> set stdlib_modules
   \<and> ''turtle'' \<in> set (all_imports_of vision_env ''/srv/Vision'')
   \<and> \<not> is_module_available vision_env ''turtle''
   \<and> ''turtle'' \<notin> fst ` set (missing_of vision_env ''/srv/Vision'')
   \<and> installs (install_missing_packages vision_env ''/srv/Vision'') =
       [''opencv-python'', ''bar'', ''Vision'', ''Pillow'']"
proof -
  have listed: "''turtle'' \<in> set stdlib_modules"
    by (simp add: stdlib_modules_def)
  show ?thesis
    using listed listed_stdlib_never_missing [OF listed, of vision_env "''/srv/Vision''"]
    by (simp add: vision_all_imports vision_available vision_missing)
qed

subsection \<open>C5: the name mapper\<close>

text \<open>
  Claim C5. The package name of an import name is the entry of the mapping table when the
  table has one and the import name itself otherwise (\<^verbatim>\<open>mappings.get(name, name)\<close>, a
  function of the table and the name alone); every missing pair carries the package name
  so computed, and the installer is called with these package names, in the order of the
  missing list, not with the import names.
\<close>

theorem name_mapper:
  "mapped_name mappings m = (if m \<in> dom mappings then the (mappings m) else m)
   \<and> (\<forall>(m', p)\<in>set (missing_of e d). p = mapped_name (load_mappings e) m')
   \<and> installs (install_missing_packages e d) =
       map (mapped_name (load_mappings e)) (map fst (missing_of e d))"
proof (intro conjI)
  show "mapped_name mappings m = (if m \<in> dom mappings then the (mappings m) else m)"
    by (rule mapped_name_dom)
  show "\<forall>(m', p)\<in>set (missing_of e d). p = mapped_name (load_mappings e) m'"
    by (auto simp: missing_iff)
  show "installs (install_missing_packages e d) =
       map (mapped_name (load_mappings e)) (map fst (missing_of e d))"
    using installs_run [of e d] missing_snd [of e d] by simp
qed

text \<open>
  With \<^verbatim>\<open>cv2\<close> mapped to \<^verbatim>\<open>opencv-python\<close> and \<^verbatim>\<open>cv2\<close> missing in \<^verbatim>\<open>/srv/Vision\<close>, the
  installer is called with \<^verbatim>\<open>opencv-python\<close> and never with \<^verbatim>\<open>cv2\<close>.
\<close>

theorem name_mapper_cv2:
  "load_mappings vision_env ''cv2'' = Some ''opencv-python''
   \<and> mapped_name (load_mappings vision_env) ''cv2'' = ''opencv-python''
   \<and> (''cv2'', ''opencv-python'') \<in> set (missing_of vision_env ''/srv/Vision'')
   \<and> installs (install_missing_packages vision_env ''/srv/Vision'') =
       [''opencv-python'', ''bar'', ''Vision'', ''Pillow'']
   \<and> ''cv2'' \<notin> set (installs (install_missing_packages vision_env ''/srv/Vision''))"
  using name_mapper [of "load_mappings vision_env" "''cv2''" vision_env "''/srv/Vision''",
      THEN conjunct1]
  by (simp add: vision_missing vision_mappings vision_installs domIff)

subsection \<open>C6: a file that cannot be scanned\<close>

text \<open>
  Claim C6. For every project, a file whose scan raises does not abort the scan of the
  project: \<^verbatim>\<open>collect_all_imports\<close> returns; the names it returns are those of the files
  whose scan succeeded, a failed file adding none; one line \<^verbatim>\<open>Error scanning ...\<close> is
  printed for each failed file, after the line that counts the files; and every name of a
  readable file is evaluated: when it is neither internal nor standard library nor
  resolvable, it is in the missing list with its package name.
\<close>

theorem collect_all_imports_skips_failed_files:
  "set (fst (collect_all_imports e d)) =
     (\<Union>f\<in>set (find_python_files e d).
         case scan_imports e f of Inr ns \<Rightarrow> set ns | Inl err \<Rightarrow> {})
   \<and> snd (collect_all_imports e d) =
       Print (Scanning (length (find_python_files e d)))
         # concat (map (\<lambda>f. case scan_imports e f of
                                 Inr ns \<Rightarrow> []
                               | Inl err \<Rightarrow> [Print (ErrorScanning f err)])
                       (find_python_files e d))
   \<and> (\<forall>f\<in>set (find_python_files e d). \<forall>ns. scan_imports e f = Inr ns \<longrightarrow>
         (\<forall>m\<in>set ns. m \<notin> set (internal_modules e d) \<and> \<not> is_stdlib_module e m
                        \<and> \<not> is_module_available e m
             \<longrightarrow> (m, mapped_name (load_mappings e) m) \<in> set (missing_of e d)))"
proof (intro conjI ballI allI impI)
  show "set (fst (collect_all_imports e d)) =
     (\<Union>f\<in>set (find_python_files e d).
         case scan_imports e f of Inr ns \<Rightarrow> set ns | Inl err \<Rightarrow> {})"
    by (simp add: collect_all_imports_def Let_def collect_loop_set)
  show "snd (collect_all_imports e d) =
       Print (Scanning (length (find_python_files e d)))
         # concat (map (\<lambda>f. case scan_imports e f of
                                 Inr ns \<Rightarrow> []
                               | Inl err \<Rightarrow> [Print (ErrorScanning f err)])
                       (find_python_files e d))"
    by (simp add: collect_all_imports_def Let_def collect_loop_out)
next
  fix f ns m
  assume f: "f \<in> set (find_python_files e d)" and ns: "scan_imports e f = Inr ns"
    and m: "m \<in> set ns"
    and keep: "m \<notin> set (internal_modules e d) \<and> \<not> is_stdlib_module e m
                 \<and> \<not> is_module_available e m"
  from f ns m have "m \<in> set (all_imports_of e d)"
    by (force simp: all_imports_of_def collect_all_imports_def Let_def collect_loop_set)
  with keep show "(m, mapped_name (load_mappings e) m) \<in> set (missing_of e d)"
    by (simp add: missing_iff)
qed

text \<open>
  In \<^verbatim>\<open>/srv/Vision\<close> the file \<^verbatim>\<open>pkg/broken.py\<close> does not parse; the names of
  \<^verbatim>\<open>main.py\<close> and of \<^verbatim>\<open>pkg/camera.py\<close>, which comes after it, are collected all the
  same, and the error is printed once.
\<close>

theorem collect_all_imports_broken_file:
  "scan_imports vision_env ''/srv/Vision/pkg/broken.py'' = Inl SyntaxError
   \<and> set (fst (collect_all_imports vision_env ''/srv/Vision'')) =
       {''cv2'', ''numpy'', ''bar'', ''core'', ''Vision'', ''json'', ''PIL'', ''os'', ''vision'',
        ''turtle''}
   \<and> snd (collect_all_imports vision_env ''/srv/Vision'') =
       [Print (Scanning 3), Print (ErrorScanning ''/srv/Vision/pkg/broken.py'' SyntaxError)]"
  using collect_all_imports_skips_failed_files [of vision_env "''/srv/Vision''"]
  by (simp add: vision_files vision_scans insert_commute)

subsection \<open>C7: what the missing list is drawn from\<close>

text \<open>
  Claim C7. In every run the import names of the missing pairs are a subset of the
  project-wide import names with the internal names removed, the names classified as
  standard library removed and the names that resolve removed: the loop adds no name from
  outside that difference.
\<close>

theorem missing_subset_of_difference:
  "fst ` set (missing_of e d)
     \<subseteq> ((set (all_imports_of e d) - set (internal_modules e d))
          - {m. is_stdlib_module e m}) - {m. is_module_available e m}"
  by (auto simp: missing_iff)

text \<open>In \<^verbatim>\<open>/srv/Vision\<close> four of the ten names are missing.\<close>

theorem missing_subset_vision:
  "fst ` set (missing_of vision_env ''/srv/Vision'') = {''cv2'', ''bar'', ''Vision'', ''PIL''}
   \<and> {''cv2'', ''bar'', ''Vision'', ''PIL''}
       \<subseteq> ((set (all_imports_of vision_env ''/srv/Vision'')
              - set (internal_modules vision_env ''/srv/Vision''))
            - {m. is_stdlib_module vision_env m}) - {m. is_module_available vision_env m}"
  using missing_subset_of_difference [of vision_env "''/srv/Vision''"]
  by (simp add: vision_missing)

subsection \<open>C8: how a run ends\<close>

text \<open>
  Claim C8. When the missing list is empty, the run makes no call of the installer and its
  last line is \<^verbatim>\<open>All packages are already installed!\<close> (or, when no import was found at
  all and the run returned before computing the list, \<^verbatim>\<open>No imports found in the project.\<close>).
  When the missing list is not empty, the run is: the lines of the scan, which hold no
  installer call, the two count lines, one call of the installer for each missing pair, in
  order and with the pair's package name, and the line \<^verbatim>\<open>Package installation complete!\<close>
  at the end, whatever the outcome of each call. The pairs of the missing list are
  pairwise different, so each is installed exactly once.
\<close>

theorem completion_behaviour:
  "(missing_of e d = [] \<longrightarrow>
      installs (install_missing_packages e d) = []
      \<and> last (install_missing_packages e d) =
          Print (if all_imports_of e d = [] then NoImports else AllInstalled))
   \<and> (missing_of e d \<noteq> [] \<longrightarrow>
      install_missing_packages e d =
        snd (collect_all_imports e d)
          @ [Print (FoundImports (length (all_imports_of e d))),
             Print (FoundMissing (length (missing_of e d)))]
          @ map (\<lambda>(m, p). Install p (package_manager e p)) (missing_of e d)
          @ [Print InstallationComplete]
      \<and> installs (snd (collect_all_imports e d)) = []
      \<and> distinct (missing_of e d)
      \<and> installs (install_missing_packages e d) = map snd (missing_of e d)
      \<and> last (install_missing_packages e d) = Print InstallationComplete)"
proof (intro conjI impI)
  assume none: "missing_of e d = []"
  then show "installs (install_missing_packages e d) = []"
    by (simp add: installs_run)
  from none show "last (install_missing_packages e d) =
          Print (if all_imports_of e d = [] then NoImports else AllInstalled)"
    by (simp add: last_run_no_imports last_run_nothing_missing)
next
  assume some: "missing_of e d \<noteq> []"
  then show "install_missing_packages e d =
        snd (collect_all_imports e d)
          @ [Print (FoundImports (length (all_imports_of e d))),
             Print (FoundMissing (length (missing_of e d)))]
          @ map (\<lambda>(m, p). Install p (package_manager e p)) (missing_of e d)
          @ [Print InstallationComplete]"
    by (rule run_missing)
  show "installs (snd (collect_all_imports e d)) = []"
    by (rule installs_collect)
  show "distinct (missing_of e d)"
    by (rule missing_pairs_distinct)
  show "installs (install_missing_packages e d) = map snd (missing_of e d)"
    by (rule installs_run)
  from some show "last (install_missing_packages e d) = Print InstallationComplete"
    by (rule last_run_missing)
qed

text \<open>
  After the first run on \<^verbatim>\<open>/home/dev/Shop\<close> nothing is missing and nothing is installed. In
  \<^verbatim>\<open>/srv/Vision\<close> the installation of \<^verbatim>\<open>bar\<close> fails; the three other installations are
  made all the same and the run ends with its summary line.
\<close>

theorem completion_behaviour_examples:
  "missing_of shop_env_after ''/home/dev/Shop'' = []
   \<and> installs (install_missing_packages shop_env_after ''/home/dev/Shop'') = []
   \<and> last (install_missing_packages shop_env_after ''/home/dev/Shop'') = Print AllInstalled
   \<and> missing_of vision_env ''/srv/Vision'' \<noteq> []
   \<and> Install ''bar'' False \<in> set (install_missing_packages vision_env ''/srv/Vision'')
   \<and> installs (install_missing_packages vision_env ''/srv/Vision'') =
       [''opencv-python'', ''bar'', ''Vision'', ''Pillow'']
   \<and> last (install_missing_packages vision_env ''/srv/Vision'') = Print InstallationComplete"
proof -
  have none: "missing_of shop_env_after ''/home/dev/Shop'' = []"
    by (rule shop_after_missing)
  have some: "missing_of vision_env ''/srv/Vision'' \<noteq> []"
    by (simp add: vision_missing)
  note quiet = completion_behaviour [of shop_env_after "''/home/dev/Shop''",
      THEN conjunct1, THEN mp, OF none]
  note busy = completion_behaviour [of vision_env "''/srv/Vision''",
      THEN conjunct2, THEN mp, OF some]
  have "installs (install_missing_packages shop_env_after ''/home/dev/Shop'') = []"
    using quiet [THEN conjunct1] .
  moreover have "last (install_missing_packages shop_env_after ''/home/dev/Shop'') =
      Print AllInstalled"
    using quiet [THEN conjunct2] by (simp add: shop_after_all_imports)
  moreover have "Install ''bar'' False \<in> set (install_missing_packages vision_env ''/srv/Vision'')"
    by (simp add: vision_run)
  moreover have "installs (install_missing_packages vision_env ''/srv/Vision'') =
       [''opencv-python'', ''bar'', ''Vision'', ''Pillow'']"
    using busy [THEN conjunct2, THEN conjunct2, THEN conjunct2, THEN conjunct1]
    by (simp add: vision_missing)
  moreover have "last (install_missing_packages vision_env ''/srv/Vision'') =
      Print InstallationComplete"
    using busy [THEN conjunct2, THEN conjunct2, THEN conjunct2, THEN conjunct2] .
  ultimately show ?thesis
    using none some by simp
qed

subsection \<open>C9: a second run\<close>

text \<open>
  Claim C9 as stated fails on \<^verbatim>\<open>/srv/Vision\<close> with a package manager that fails on nothing.
  The first run makes four installations and all four succeed. The package \<^verbatim>\<open>Vision\<close>,
  installed for the import \<^verbatim>\<open>Vision\<close>, holds a module \<^verbatim>\<open>vision\<close>; nothing else changes
  between the runs. The import \<^verbatim>\<open>Vision\<close> still does not resolve, and the second run
  installs the package again.
\<close>

theorem second_run_counterexample:
  "install_missing_packages vision_env_ok ''/srv/Vision'' =
     [Print (Scanning 3), Print (ErrorScanning ''/srv/Vision/pkg/broken.py'' SyntaxError),
      Print (FoundImports 10), Print (FoundMissing 4),
      Install ''opencv-python'' True, Install ''bar'' True, Install ''Vision'' True,
      Install ''Pillow'' True, Print InstallationComplete]
   \<and> provides vision_env_ok ''Vision'' = [''vision'']
   \<and> missing_of (after_run vision_env_ok ''/srv/Vision'') ''/srv/Vision'' =
       [(''Vision'', ''Vision'')]
   \<and> installs (install_missing_packages (after_run vision_env_ok ''/srv/Vision'')
        ''/srv/Vision'') = [''Vision'']"
  by (simp add: vision_ok_run vision_ok_second)

text \<open>
  Claim C9, amended. For every project, if in a first run every installation succeeds and
  every installed package holds the module it was installed for (the import name of its
  missing pair), and the environment changes between the runs only by what these
  installations make resolvable, then the second run on the same project finds no missing
  package and makes no call of the installer.
\<close>

theorem second_run_after_installs:
  assumes success: "\<forall>(m, p)\<in>set (missing_of e d). package_manager e p"
    and holds: "\<forall>(m, p)\<in>set (missing_of e d). m \<in> set (provides e p)"
  shows "missing_of (after_run e d) d = []
     \<and> installs (install_missing_packages (after_run e d) d) = []"
proof -
  let ?avail = "is_module_available (after_run e d)"
  have kept: "\<forall>m. is_module_available e m \<longrightarrow> ?avail m"
    by (simp add: after_run_available)
  have installed: "\<forall>(m, p)\<in>set (missing_of e d). ?avail m"
    using success holds by (fastforce simp: after_run_available)
  from second_run_general [OF kept installed] show ?thesis
    by (subst (1 2) after_run_only_available)
qed

text \<open>
  The first run on \<^verbatim>\<open>/home/dev/Shop\<close> installs \<^verbatim>\<open>requests\<close> and \<^verbatim>\<open>mymodule\<close>, both with
  success, and each package holds the module of its name; the second run installs nothing.
\<close>

theorem second_run_shop:
  "install_missing_packages shop_env ''/home/dev/Shop'' =
     [Print (Scanning 2), Print (FoundImports 3), Print (FoundMissing 2),
      Install ''requests'' True, Install ''mymodule'' True, Print InstallationComplete]
   \<and> missing_of (after_run shop_env ''/home/dev/Shop'') ''/home/dev/Shop'' = []
   \<and> installs (install_missing_packages (after_run shop_env ''/home/dev/Shop'')
        ''/home/dev/Shop'') = []"
proof -
  have success: "\<forall>(m, p)\<in>set (missing_of shop_env ''/home/dev/Shop''). package_manager shop_env p"
    by (simp add: shop_index)
  have holds: "\<forall>(m, p)\<in>set (missing_of shop_env ''/home/dev/Shop''). m \<in> set (provides shop_env p)"
    by (simp add: shop_missing shop_index)
  from second_run_after_installs [OF success holds] show ?thesis
    by (simp add: shop_run)
qed

subsection \<open>C10: the tool's own names\<close>

text \<open>
  Claim C10. In every environment and for every project directory, an import named
  \<^verbatim>\<open>autopylot\<close>, \<^verbatim>\<open>AutoPylot\<close>, \<^verbatim>\<open>core\<close> or \<^verbatim>\<open>cli\<close> is never the import name of a missing
  pair, whatever it refers to; a name is internal exactly when it is one of these four or
  equals, character for character, the lower-cased basename of the absolute project
  directory; no internal name is ever missing; and the installer is called for the missing
  pairs only.
\<close>

theorem tool_names_always_excluded:
  "(n \<in> {''autopylot'', ''AutoPylot'', ''core'', ''cli''} \<longrightarrow>
      n \<notin> fst ` set (missing_of e d))
   \<and> (n \<in> set (internal_modules e d) \<longleftrightarrow>
        n \<in> {''autopylot'', ''AutoPylot'', ''core'', ''cli''}
        \<or> n = lower (basename (abspath e d)))
   \<and> (n \<in> set (internal_modules e d) \<longrightarrow> n \<notin> fst ` set (missing_of e d))
   \<and> installs (install_missing_packages e d) = map snd (missing_of e d)"
proof (intro conjI impI)
  show "n \<in> set (internal_modules e d) \<longleftrightarrow>
        n \<in> {''autopylot'', ''AutoPylot'', ''core'', ''cli''}
        \<or> n = lower (basename (abspath e d))"
    by (rule internal_modules_iff)
  show "installs (install_missing_packages e d) = map snd (missing_of e d)"
    by (rule installs_run)
next
  assume "n \<in> {''autopylot'', ''AutoPylot'', ''core'', ''cli''}"
  then have "n \<in> set (internal_modules e d)"
    by (simp add: internal_modules_iff)
  then show "n \<notin> fst ` set (missing_of e d)"
    by (auto simp: missing_iff)
next
  assume "n \<in> set (internal_modules e d)"
  then show "n \<notin> fst ` set (missing_of e d)"
    by (auto simp: missing_iff)
qed

text \<open>
  \<^verbatim>\<open>/srv/Vision\<close> imports \<^verbatim>\<open>core\<close>, which neither resolves nor is standard library, and it
  is not installed. The project's basename is \<^verbatim>\<open>Vision\<close>: the import \<^verbatim>\<open>vision\<close> is
  internal, the import \<^verbatim>\<open>Vision\<close> is not, and \<^verbatim>\<open>Vision\<close> is installed.
\<close>

theorem tool_names_excluded_vision:
  "''core'' \<in> set (all_imports_of vision_env ''/srv/Vision'')
   \<and> \<not> is_stdlib_module vision_env ''core'' \<and> \<not> is_module_available vision_env ''core''
   \<and> ''core'' \<notin> fst ` set (missing_of vision_env ''/srv/Vision'')
   \<and> basename (abspath vision_env ''/srv/Vision'') = ''Vision''
   \<and> ''vision'' \<in> set (internal_modules vision_env ''/srv/Vision'')
   \<and> ''Vision'' \<notin> set (internal_modules vision_env ''/srv/Vision'')
   \<and> ''Vision'' \<in> fst ` set (missing_of vision_env ''/srv/Vision'')
   \<and> ''Vision'' \<in> set (installs (install_missing_packages vision_env ''/srv/Vision''))"
proof -
  have core: "''core'' \<in> {''autopylot'', ''AutoPylot'', ''core'', ''cli''}"
    by simp
  have "''core'' \<notin> fst ` set (missing_of vision_env ''/srv/Vision'')"
    using tool_names_always_excluded [of "''core''" vision_env "''/srv/Vision''",
        THEN conjunct1, THEN mp, OF core] .
  moreover have "basename (abspath vision_env ''/srv/Vision'') = ''Vision''"
    by code_simp
  moreover have "\<not> is_stdlib_module vision_env ''core''"
    by code_simp
  ultimately show ?thesis
    by (simp add: vision_all_imports vision_available vision_internal vision_missing
        vision_installs)
qed

end
